theory Spec2Isabelle
  imports Main "HOL-Library.Sublist"
begin

section \<open>Python values, dictionaries and exceptions\<close>

text \<open>
  The script \<^verbatim>\<open>run_migration.py\<close> handles dictionary-shaped data sources and validation
  results whose entries are dynamically typed. The values that the script inspects are
  strings (table names), booleans (\<^verbatim>\<open>validation_passed\<close>) and whatever else a dictionary
  may hold; \<open>truthy\<close> is Python's truth value of such an entry.
\<close>

datatype pyval = PyNone | PyBool bool | PyInt int | PyStr string

fun truthy :: "pyval \<Rightarrow> bool" where
  "truthy PyNone = False"
| "truthy (PyBool b) = b"
| "truthy (PyInt i) = (i \<noteq> 0)"
| "truthy (PyStr s) = (s \<noteq> [])"

type_synonym pydict = "string \<rightharpoonup> pyval"

text \<open>
  \<open>exn\<close> stands for instances of Python's \<^verbatim>\<open>Exception\<close> class, the class named by the
  handler of \<^verbatim>\<open>main\<close>: the two that the script's own expressions raise, and any error
  raised inside the pipeline object.
\<close>

datatype exn = KeyError string | TypeError | PipelineError string

text \<open>\<^verbatim>\<open>d[k]\<close> raises \<^verbatim>\<open>KeyError\<close> on a missing key; \<^verbatim>\<open>d.get(k, default)\<close> does not.\<close>

definition subscript :: "pydict \<Rightarrow> string \<Rightarrow> exn + pyval" where
  "subscript d k = (case d k of None \<Rightarrow> Inl (KeyError k) | Some v \<Rightarrow> Inr v)"

definition get :: "pydict \<Rightarrow> string \<Rightarrow> pyval \<Rightarrow> pyval" where
  "get d k dflt = (case d k of None \<Rightarrow> dflt | Some v \<Rightarrow> v)"

text \<open>\<^verbatim>\<open>v in names\<close> for a list of strings: only a string can equal a string.\<close>

fun py_in :: "pyval \<Rightarrow> string list \<Rightarrow> bool" where
  "py_in (PyStr x) names = (x \<in> set names)"
| "py_in _ names = False"

text \<open>\<^verbatim>\<open>sep.join(xs)\<close> raises \<^verbatim>\<open>TypeError\<close> unless every item is a string.\<close>

fun join_strs :: "string \<Rightarrow> string list \<Rightarrow> string" where
  "join_strs sep [] = []"
| "join_strs sep [x] = x"
| "join_strs sep (x # y # ys) = x @ sep @ join_strs sep (y # ys)"

fun strs_of :: "pyval list \<Rightarrow> string list option" where
  "strs_of [] = Some []"
| "strs_of (PyStr x # vs) = (case strs_of vs of None \<Rightarrow> None | Some xs \<Rightarrow> Some (x # xs))"
| "strs_of (_ # vs) = None"

definition join :: "string \<Rightarrow> pyval list \<Rightarrow> exn + string" where
  "join sep vs = (case strs_of vs of None \<Rightarrow> Inl TypeError | Some xs \<Rightarrow> Inr (join_strs sep xs))"

section \<open>Command line and pipeline object\<close>

text \<open>
  The parsed command line (lines 15 to 21). \<^verbatim>\<open>--tables\<close> is absent (\<open>None\<close>) or a list of
  names.
\<close>

record args =
  config :: string
  log_level :: string
  validate_only :: bool
  tables :: "string list option"

text \<open>
  The class \<^verbatim>\<open>CloudMigrationPipeline\<close> is imported from \<^verbatim>\<open>src.migration_pipeline\<close>, which
  is not part of the sources at hand; \<^verbatim>\<open>main\<close> is therefore modelled over an arbitrary
  implementation of the four members it uses. A pipeline object carries the attribute
  \<^verbatim>\<open>data_sources\<close>, which \<^verbatim>\<open>main\<close> reads and reassigns, and internal state \<open>'s\<close>
  (connections, source and target stores). A method sees the whole object and returns
  either a value or a raised exception, together with the new internal state; the
  data-source list is read-only to the methods, as the specification's data model has it.
  A method's return value is used by \<^verbatim>\<open>main\<close> only through its truth value where the
  type here is \<open>bool\<close>.
\<close>

record 's pipeline =
  data_sources :: "pydict list"
  internals :: 's

record 's CloudMigrationPipeline =
  init :: "string \<Rightarrow> exn + 's pipeline"
  connect_to_source_db :: "'s pipeline \<Rightarrow> (exn + bool) \<times> 's"
  validate_migration :: "pyval \<Rightarrow> 's pipeline \<Rightarrow> (exn + pydict) \<times> 's"
  run_migration :: "'s pipeline \<Rightarrow> (exn + bool) \<times> 's"

text \<open>What a run did, beyond the integer that \<^verbatim>\<open>main\<close> returns.\<close>

datatype call = CallInit string | CallConnect | CallValidate pyval | CallRunMigration

record 's run =
  calls :: "call list"
  active :: "pydict list option"
  connected :: "bool option"
  validation_results :: "pydict list"
  failed :: "pyval list option"
  migration_success :: "bool option"
  state :: "'s option"

section \<open>The script\<close>

text \<open>Line 53: \<^verbatim>\<open>[s for s in all_sources if s['table'] in args.tables]\<close>.\<close>

fun select_sources :: "string list \<Rightarrow> pydict list \<Rightarrow> exn + pydict list" where
  "select_sources names [] = Inr []"
| "select_sources names (s # rest) =
     (case subscript s ''table'' of
        Inl e \<Rightarrow> Inl e
      | Inr t \<Rightarrow>
          (case select_sources names rest of
             Inl e \<Rightarrow> Inl e
           | Inr kept \<Rightarrow> Inr (if py_in t names then s # kept else kept)))"

text \<open>Lines 50 to 54: the filter step runs only when \<^verbatim>\<open>args.tables\<close> is a non-empty list.\<close>

definition filter_sources :: "string list option \<Rightarrow> pydict list \<Rightarrow> exn + pydict list" where
  "filter_sources ts all_sources =
     (case ts of
        None \<Rightarrow> Inr all_sources
      | Some names \<Rightarrow> if names = [] then Inr all_sources else select_sources names all_sources)"

text \<open>
  Lines 63 to 68: the validation loop. It returns the exception that ended it (if any), the
  pipeline's internal state, the results appended to \<^verbatim>\<open>validation_results\<close> and the table
  names passed to \<^verbatim>\<open>validate_migration\<close>.
\<close>

fun validate_loop ::
  "'s CloudMigrationPipeline \<Rightarrow> 's pipeline \<Rightarrow> pydict list \<Rightarrow> 's
     \<Rightarrow> exn option \<times> 's \<times> pydict list \<times> pyval list" where
  "validate_loop cls p [] s = (None, s, [], [])"
| "validate_loop cls p (source # rest) s =
     (case subscript source ''table'' of
        Inl e \<Rightarrow> (Some e, s, [], [])
      | Inr table_name \<Rightarrow>
          (case validate_migration cls table_name (p\<lparr>internals := s\<rparr>) of
             (Inl e, s') \<Rightarrow> (Some e, s', [], [table_name])
           | (Inr result, s') \<Rightarrow>
               (case validate_loop cls p rest s' of
                  (e, s'', results, names) \<Rightarrow> (e, s'', result # results, table_name # names))))"

text \<open>Lines 70 and 75: \<^verbatim>\<open>r.get('validation_passed', False)\<close>, taken as a truth value.\<close>

definition passed :: "pydict \<Rightarrow> bool" where
  "passed r = truthy (get r ''validation_passed'' (PyBool False))"

text \<open>Line 75: \<^verbatim>\<open>[r['table_name'] for r in validation_results if not r.get(...)]\<close>.\<close>

fun failed_tables :: "pydict list \<Rightarrow> exn + pyval list" where
  "failed_tables [] = Inr []"
| "failed_tables (r # rs) =
     (if \<not> passed r then
        (case subscript r ''table_name'' of
           Inl e \<Rightarrow> Inl e
         | Inr t \<Rightarrow> (case failed_tables rs of Inl e \<Rightarrow> Inl e | Inr ts \<Rightarrow> Inr (t # ts)))
      else failed_tables rs)"

text \<open>Lines 56 to 77: validation-only mode.\<close>

definition validate_branch ::
  "'s CloudMigrationPipeline \<Rightarrow> 's pipeline \<Rightarrow> 's run \<Rightarrow> (exn + int) \<times> 's run" where
  "validate_branch cls p r =
     (case connect_to_source_db cls p of
        (Inl e, s) \<Rightarrow> (Inl e, r\<lparr>calls := calls r @ [CallConnect], state := Some s\<rparr>)
      | (Inr ok, s) \<Rightarrow>
          (let r1 = r\<lparr>calls := calls r @ [CallConnect], connected := Some ok, state := Some s\<rparr> in
           if \<not> ok then (Inr 1, r1)
           else
             (case validate_loop cls p (data_sources p) s of
                (e, s', results, names) \<Rightarrow>
                  (let r2 = r1\<lparr>calls := calls r1 @ map CallValidate names,
                                validation_results := results, state := Some s'\<rparr> in
                   case e of
                     Some e \<Rightarrow> (Inl e, r2)
                   | None \<Rightarrow>
                       if list_all passed results then (Inr 0, r2)
                       else
                         (case failed_tables results of
                            Inl e \<Rightarrow> (Inl e, r2)
                          | Inr fs \<Rightarrow>
                              (case join '', '' fs of
                                 Inl e \<Rightarrow> (Inl e, r2\<lparr>failed := Some fs\<rparr>)
                               | Inr msg \<Rightarrow> (Inr 1, r2\<lparr>failed := Some fs\<rparr>)))))))"

text \<open>Lines 79 to 87: full migration.\<close>

definition migrate_branch ::
  "'s CloudMigrationPipeline \<Rightarrow> 's pipeline \<Rightarrow> 's run \<Rightarrow> (exn + int) \<times> 's run" where
  "migrate_branch cls p r =
     (case run_migration cls p of
        (Inl e, s) \<Rightarrow> (Inl e, r\<lparr>calls := calls r @ [CallRunMigration], state := Some s\<rparr>)
      | (Inr success, s) \<Rightarrow>
          (let r1 = r\<lparr>calls := calls r @ [CallRunMigration],
                       migration_success := Some success, state := Some s\<rparr> in
           if \<not> success then (Inr 1, r1) else (Inr 0, r1)))"

text \<open>Lines 45 to 89: the body of the \<^verbatim>\<open>try\<close> statement; \<open>Inl\<close> is an exception leaving it.\<close>

definition main_try :: "'s CloudMigrationPipeline \<Rightarrow> args \<Rightarrow> (exn + int) \<times> 's run" where
  "main_try cls a =
     (let r0 = \<lparr>calls = [CallInit (config a)], active = None, connected = None,
                validation_results = [], failed = None, migration_success = None,
                state = None\<rparr> in
      case init cls (config a) of
        Inl e \<Rightarrow> (Inl e, r0)
      | Inr pipeline \<Rightarrow>
          (case filter_sources (tables a) (data_sources pipeline) of
             Inl e \<Rightarrow> (Inl e, r0\<lparr>state := Some (internals pipeline)\<rparr>)
           | Inr srcs \<Rightarrow>
               (let p = pipeline\<lparr>data_sources := srcs\<rparr>;
                    r1 = r0\<lparr>active := Some srcs, state := Some (internals pipeline)\<rparr> in
                if validate_only a then validate_branch cls p r1
                else migrate_branch cls p r1)))"

text \<open>Lines 42 to 93: \<^verbatim>\<open>main\<close>, with the handler that maps every exception to 1.\<close>

definition main :: "'s CloudMigrationPipeline \<Rightarrow> args \<Rightarrow> int \<times> 's run" where
  "main cls a = (case main_try cls a of (Inl e, r) \<Rightarrow> (1, r) | (Inr code, r) \<Rightarrow> (code, r))"

text \<open>Lines 95 to 97: the process exits with what \<^verbatim>\<open>main\<close> returns.\<close>

definition exit_code :: "'s CloudMigrationPipeline \<Rightarrow> args \<Rightarrow> int" where
  "exit_code cls a = fst (main cls a)"

definition effects :: "'s CloudMigrationPipeline \<Rightarrow> args \<Rightarrow> 's run" where
  "effects cls a = snd (main cls a)"

section \<open>What the claims speak about\<close>


text \<open>A data source names its table; a name is selected when it is one of the given names.\<close>

definition has_table :: "pydict \<Rightarrow> bool" where
  "has_table s = (s ''table'' \<noteq> None)"

definition selected :: "string list \<Rightarrow> pydict \<Rightarrow> bool" where
  "selected names s = (case s ''table'' of Some (PyStr x) \<Rightarrow> x \<in> set names | _ \<Rightarrow> False)"

definition table_of :: "pydict \<Rightarrow> pyval" where
  "table_of s = get s ''table'' PyNone"

text \<open>
  The results that the validation loop gathers when nothing raises: one call of
  \<^verbatim>\<open>validate_migration\<close> per table, each on the state its predecessor left.
\<close>

fun validate_each :: "'s CloudMigrationPipeline \<Rightarrow> 's pipeline \<Rightarrow> pydict list \<Rightarrow> 's \<Rightarrow> (exn + pydict) list" where
  "validate_each cls p [] s = []"
| "validate_each cls p (source # rest) s =
     (case validate_migration cls (table_of source) (p\<lparr>internals := s\<rparr>) of
        (res, s') \<Rightarrow> res # validate_each cls p rest s')"

definition returned :: "(exn + 'a) \<Rightarrow> bool" where
  "returned x = (case x of Inl e \<Rightarrow> False | Inr v \<Rightarrow> True)"


section \<open>An example pipeline class\<close>

text \<open>
  Three configured tables; the internal state counts the method calls made. The validation
  result of \<^verbatim>\<open>orders\<close> has no \<^verbatim>\<open>validation_passed\<close> entry, and validating \<^verbatim>\<open>audit\<close>
  (or any other name) raises.
\<close>

definition demo_sources :: "pydict list" where
  "demo_sources =
     [[''table'' \<mapsto> PyStr ''users''], [''table'' \<mapsto> PyStr ''orders''],
      [''table'' \<mapsto> PyStr ''audit'']]"

definition demo :: "bool \<Rightarrow> nat CloudMigrationPipeline" where
  "demo reachable =
     \<lparr>init = (\<lambda>cfg. if cfg = [] then Inl (PipelineError ''no configuration'')
                     else Inr \<lparr>data_sources = demo_sources, internals = 0\<rparr>),
      connect_to_source_db = (\<lambda>p. (Inr reachable, Suc (internals p))),
      validate_migration = (\<lambda>t p.
         (if t = PyStr ''users''
          then Inr [''table_name'' \<mapsto> t, ''validation_passed'' \<mapsto> PyBool True]
          else if t = PyStr ''orders'' then Inr [''table_name'' \<mapsto> t]
          else Inl (PipelineError ''no such table''),
          Suc (internals p))),
      run_migration = (\<lambda>p.
         (Inr (reachable \<and> list_all (\<lambda>s. s ''table'' = Some (PyStr ''users'')) (data_sources p)),
          Suc (internals p)))\<rparr>"

definition demo_args :: "bool \<Rightarrow> string list option \<Rightarrow> args" where
  "demo_args vo ts = \<lparr>config = ''config.ini'', log_level = ''INFO'', validate_only = vo, tables = ts\<rparr>"

section \<open>The pipeline class as the specification describes it\<close>

text \<open>
  Modelled from the spec: the module \<^verbatim>\<open>src/migration_pipeline.py\<close> with the class
  \<^verbatim>\<open>CloudMigrationPipeline\<close> is missing; the definitions of this section follow sections 3,
  4 and 7 of the specification. A row of a table (missing with the module) maps column
  names to values.
\<close>

type_synonym row = pydict

text \<open>
  Modelled from the spec: section 3, the status of a migration result (missing with the
  module).
\<close>

datatype status = Succeeded | Failed | Skipped

text \<open>
  Modelled from the spec: section 3, the per-table migration result (missing with the
  module), without its timestamps; the error detail is present for a failed table.
\<close>

record migration_result =
  mr_table :: pyval
  mr_status :: status
  rows_migrated :: nat
  error_detail :: "exn option"

text \<open>
  Modelled from the spec: the collaborators of the orchestrator (missing with the module),
  over a world \<open>'w\<close> of source and target stores. The configuration provider yields the
  data-source list or fails; the source connector's \<^verbatim>\<open>connect\<close> and \<^verbatim>\<open>extract\<close>, the
  transformer's \<^verbatim>\<open>apply\<close> and the target loader's \<^verbatim>\<open>load\<close> return or fail with an error;
  a failed load may have written part of its rows; the validator never raises and never
  changes a store.
\<close>

record 'w components =
  load_config :: "string \<Rightarrow> exn + pydict list"
  source_connect :: "'w \<Rightarrow> exn + 'w"
  source_extract :: "pydict \<Rightarrow> 'w \<Rightarrow> exn + row list"
  transformer_apply :: "row \<Rightarrow> pydict \<Rightarrow> exn + row"
  target_load :: "pydict \<Rightarrow> row list \<Rightarrow> 'w \<Rightarrow> (exn + nat) \<times> 'w"
  validator_validate :: "pyval \<Rightarrow> 'w \<Rightarrow> pydict"

text \<open>
  Modelled from the spec: the orchestrator's internal state (missing with the module): the
  world and the per-table records made so far.
\<close>

record 'w orchestrator =
  world :: 'w
  migration_results :: "migration_result list"
  recorded_validations :: "pydict list"

text \<open>
  Modelled from the spec: section 4.3, the mapping is applied row by row and fails at the
  first row that fails.
\<close>

fun transform_rows :: "'w components \<Rightarrow> pydict \<Rightarrow> row list \<Rightarrow> exn + row list" where
  "transform_rows c src [] = Inr []"
| "transform_rows c src (r # rs) =
     (case transformer_apply c r src of
        Inl e \<Rightarrow> Inl e
      | Inr r' \<Rightarrow>
          (case transform_rows c src rs of Inl e \<Rightarrow> Inl e | Inr rs' \<Rightarrow> Inr (r' # rs')))"

text \<open>
  Modelled from the spec: section 4.1, one table's extract, transform and load, in this
  order; an error of any step ends the steps of this table.
\<close>

definition table_steps :: "'w components \<Rightarrow> pydict \<Rightarrow> 'w \<Rightarrow> (exn + nat) \<times> 'w" where
  "table_steps c src w =
     (case source_extract c src w of
        Inl e \<Rightarrow> (Inl e, w)
      | Inr rows \<Rightarrow>
          (case transform_rows c src rows of
             Inl e \<Rightarrow> (Inl e, w)
           | Inr rows' \<Rightarrow> target_load c src rows' w))"

text \<open>
  Modelled from the spec: sections 4.1 and 7, a table-scoped error is caught at the
  orchestrator boundary and becomes a failed migration result carrying the error;
  validation runs whatever the outcome of the load.
\<close>

definition migrate_table ::
  "'w components \<Rightarrow> pydict \<Rightarrow> 'w \<Rightarrow> (migration_result \<times> pydict) \<times> 'w" where
  "migrate_table c src w =
     (case table_steps c src w of
        (Inl e, w') \<Rightarrow>
          ((\<lparr>mr_table = table_of src, mr_status = Failed, rows_migrated = 0,
              error_detail = Some e\<rparr>,
            validator_validate c (table_of src) w'), w')
      | (Inr n, w') \<Rightarrow>
          ((\<lparr>mr_table = table_of src, mr_status = Succeeded, rows_migrated = n,
              error_detail = None\<rparr>,
            validator_validate c (table_of src) w'), w'))"

text \<open>Modelled from the spec: section 4.1, the tables are processed in the configured order.\<close>

fun migrate_tables ::
  "'w components \<Rightarrow> pydict list \<Rightarrow> 'w \<Rightarrow> (migration_result \<times> pydict) list \<times> 'w" where
  "migrate_tables c [] w = ([], w)"
| "migrate_tables c (src # rest) w =
     (case migrate_table c src w of
        (out, w') \<Rightarrow>
          (case migrate_tables c rest w' of (outs, w'') \<Rightarrow> (out # outs, w'')))"

text \<open>
  Modelled from the spec: section 4.1, a table counts for the overall result when it
  succeeded and its validation passed.
\<close>

definition table_ok :: "migration_result \<times> pydict \<Rightarrow> bool" where
  "table_ok out = (mr_status (fst out) = Succeeded \<and> passed (snd out))"

text \<open>
  Modelled from the spec: section 4.1, \<^verbatim>\<open>load\<close> fails with a configuration error when a
  required field of a table is missing.
\<close>

definition spec_init :: "'w components \<Rightarrow> 'w \<Rightarrow> string \<Rightarrow> exn + 'w orchestrator pipeline" where
  "spec_init c w0 cfg =
     (case load_config c cfg of
        Inl e \<Rightarrow> Inl e
      | Inr srcs \<Rightarrow>
          if list_all has_table srcs
          then Inr \<lparr>data_sources = srcs,
                    internals = \<lparr>world = w0, migration_results = [], recorded_validations = []\<rparr>\<rparr>
          else Inl (PipelineError ''ConfigError''))"

text \<open>
  Modelled from the spec: section 4.1, \<^verbatim>\<open>connectSource\<close> returns false, and does not raise,
  when the source connector fails.
\<close>

definition spec_connect_to_source_db ::
  "'w components \<Rightarrow> 'w orchestrator pipeline \<Rightarrow> (exn + bool) \<times> 'w orchestrator" where
  "spec_connect_to_source_db c p =
     (case source_connect c (world (internals p)) of
        Inl e \<Rightarrow> (Inr False, internals p)
      | Inr w \<Rightarrow> (Inr True, (internals p)\<lparr>world := w\<rparr>))"

text \<open>Modelled from the spec: sections 4.1 and 4.5, \<^verbatim>\<open>validate\<close> runs the validator for one table.\<close>

definition spec_validate_migration ::
  "'w components \<Rightarrow> pyval \<Rightarrow> 'w orchestrator pipeline \<Rightarrow> (exn + pydict) \<times> 'w orchestrator" where
  "spec_validate_migration c t p =
     (Inr (validator_validate c t (world (internals p))), internals p)"

text \<open>
  Modelled from the spec: sections 4.1, 7 and 8, \<^verbatim>\<open>runMigration\<close> connects the source first
  and, when that fails, returns false before any table is touched; otherwise it processes
  the active tables and returns the conjunction of the per-table outcomes.
\<close>

definition spec_run_migration ::
  "'w components \<Rightarrow> 'w orchestrator pipeline \<Rightarrow> (exn + bool) \<times> 'w orchestrator" where
  "spec_run_migration c p =
     (case source_connect c (world (internals p)) of
        Inl e \<Rightarrow> (Inr False, internals p)
      | Inr w \<Rightarrow>
          (case migrate_tables c (data_sources p) w of
             (outs, w') \<Rightarrow>
               (Inr (list_all table_ok outs),
                (internals p)\<lparr>world := w',
                    migration_results := migration_results (internals p) @ map fst outs,
                    recorded_validations := recorded_validations (internals p) @ map snd outs\<rparr>)))"

text \<open>Modelled from the spec: the missing class, assembled from the members above.\<close>

definition spec_pipeline :: "'w components \<Rightarrow> 'w \<Rightarrow> 'w orchestrator CloudMigrationPipeline" where
  "spec_pipeline c w0 =
     \<lparr>init = spec_init c w0,
      connect_to_source_db = spec_connect_to_source_db c,
      validate_migration = spec_validate_migration c,
      run_migration = spec_run_migration c\<rparr>"

text \<open>
  Example collaborators. The world lists the tables loaded into the target; extraction of
  \<^verbatim>\<open>orders\<close> fails; a table validates when it is in the target.
\<close>

definition demo_components :: "bool \<Rightarrow> pyval list components" where
  "demo_components reachable =
     \<lparr>load_config = (\<lambda>cfg. if cfg = [] then Inl (PipelineError ''ConfigError'') else Inr demo_sources),
      source_connect = (\<lambda>w. if reachable then Inr w else Inl (PipelineError ''ConnectionError'')),
      source_extract = (\<lambda>src w.
         if table_of src = PyStr ''orders'' then Inl (PipelineError ''ExtractionError'')
         else Inr [[''id'' \<mapsto> PyInt 1], [''id'' \<mapsto> PyInt 2]]),
      transformer_apply = (\<lambda>r src. Inr r),
      target_load = (\<lambda>src rows w. (Inr (length rows), w @ [table_of src])),
      validator_validate = (\<lambda>t w.
         [''table_name'' \<mapsto> t, ''validation_passed'' \<mapsto> PyBool (t \<in> set w)])\<rparr>"

section \<open>Auxiliary facts\<close>

lemma validate_loop_shape:
  "validate_loop cls p srcs s = (e, s', rs, ns) \<Longrightarrow>
     (e = None \<longrightarrow> length rs = length srcs)
   \<and> (e \<noteq> None \<longrightarrow> length rs < length srcs)"
  by (induction srcs arbitrary: s e s' rs ns) (auto split: sum.splits prod.splits)

lemma select_sources_filter:
  "list_all has_table srcs \<Longrightarrow> select_sources names srcs = Inr (filter (selected names) srcs)"
proof (induction srcs)
  case Nil
  then show ?case by simp
next
  case (Cons s rest)
  then obtain t where t: "s ''table'' = Some t" by (auto simp: has_table_def)
  have "py_in t names = selected names s"
    using t by (cases t) (simp_all add: selected_def)
  with Cons t show ?case by (simp add: subscript_def)
qed

lemma active_effects:
  "init cls (config a) = Inr p \<Longrightarrow> filter_sources (tables a) (data_sources p) = Inr act \<Longrightarrow>
   active (effects cls a) = Some act"
  unfolding effects_def main_def main_try_def validate_branch_def migrate_branch_def Let_def
  by (auto split: sum.splits prod.splits option.splits)

lemma subscript_table_of: "has_table s \<Longrightarrow> subscript s ''table'' = Inr (table_of s)"
  by (auto simp: has_table_def subscript_def table_of_def get_def)

lemma validate_loop_returned:
  "list_all has_table srcs \<Longrightarrow> list_all returned (validate_each cls p srcs s) \<Longrightarrow>
   \<exists>s' rs. validate_loop cls p srcs s = (None, s', rs, map table_of srcs)
      \<and> map Inr rs = validate_each cls p srcs s"
proof (induction srcs arbitrary: s)
  case Nil
  then show ?case by simp
next
  case (Cons source rest)
  obtain res s1 where v: "validate_migration cls (table_of source) (p\<lparr>internals := s\<rparr>) = (res, s1)"
    by (cases "validate_migration cls (table_of source) (p\<lparr>internals := s\<rparr>)")
  with Cons.prems obtain r where r: "res = Inr r"
    by (cases res) (auto simp: returned_def)
  from Cons.prems v have "list_all has_table rest" "list_all returned (validate_each cls p rest s1)"
    by auto
  from Cons.IH[OF this] obtain s' rs where
    "validate_loop cls p rest s1 = (None, s', rs, map table_of rest)"
    "map Inr rs = validate_each cls p rest s1" by blast
  with v r Cons.prems show ?case
    by (simp add: subscript_table_of)
qed

lemma validate_run:
  assumes "validate_only a" and "init cls (config a) = Inr p"
    and "filter_sources (tables a) (data_sources p) = Inr act"
    and "connect_to_source_db cls (p\<lparr>data_sources := act\<rparr>) = (Inr True, s1)"
    and "validate_loop cls (p\<lparr>data_sources := act\<rparr>) act s1 = (e, s', rs, ns)"
  shows "calls (effects cls a) = CallInit (config a) # CallConnect # map CallValidate ns"
    and "validation_results (effects cls a) = rs"
    and "connected (effects cls a) = Some True"
    and "e = None \<Longrightarrow> list_all passed rs \<Longrightarrow> exit_code cls a = 0"
  using assms
  unfolding exit_code_def effects_def main_def main_try_def validate_branch_def Let_def
  by (auto split: sum.splits prod.splits option.splits)




lemma migrate_run:
  assumes "\<not> validate_only a" and "init cls (config a) = Inr p"
    and "filter_sources (tables a) (data_sources p) = Inr act"
    and "run_migration cls (p\<lparr>data_sources := act\<rparr>) = (Inr b, st)"
  shows "state (effects cls a) = Some st"
    and "exit_code cls a = (if b then 0 else 1)"
    and "calls (effects cls a) = [CallInit (config a), CallRunMigration]"
    and "validation_results (effects cls a) = []"
  using assms
  unfolding exit_code_def effects_def main_def main_try_def migrate_branch_def Let_def
  by (auto split: sum.splits prod.splits option.splits)

lemma migrate_table_result:
  "migrate_table c src w = ((mr, vr), w') \<Longrightarrow>
     mr_table mr = table_of src
   \<and> (mr_status mr = Failed \<or> mr_status mr = Succeeded)
   \<and> (error_detail mr \<noteq> None \<longleftrightarrow> mr_status mr = Failed)"
  by (auto simp: migrate_table_def split: sum.splits prod.splits)

lemma migrate_tables_append:
  "migrate_tables c (xs @ ys) w =
     (case migrate_tables c xs w of
        (outs1, w1) \<Rightarrow>
          (case migrate_tables c ys w1 of (outs2, w2) \<Rightarrow> (outs1 @ outs2, w2)))"
  by (induction xs arbitrary: w) (auto split: prod.splits)

lemma migrate_tables_tables:
  "migrate_tables c srcs w = (outs, w') \<Longrightarrow> map (\<lambda>out. mr_table (fst out)) outs = map table_of srcs"
proof (induction srcs arbitrary: w outs)
  case Nil
  then show ?case by simp
next
  case (Cons src rest)
  then show ?case
    by (auto split: prod.splits dest: migrate_table_result)
qed

lemma spec_init_sources:
  "init (spec_pipeline c w0) cfg = Inr p \<Longrightarrow>
     list_all has_table (data_sources p)
   \<and> internals p = \<lparr>world = w0, migration_results = [], recorded_validations = []\<rparr>"
  by (auto simp: spec_pipeline_def spec_init_def split: sum.splits if_splits)

lemma filter_sources_total:
  "list_all has_table srcs \<Longrightarrow> \<exists>act. filter_sources ts srcs = Inr act \<and> list_all has_table act"
  by (auto simp: filter_sources_def select_sources_filter list_all_iff split: option.splits)

lemma spec_run_results:
  assumes "\<not> validate_only b" and "init (spec_pipeline c w0) (config b) = Inr q"
    and "filter_sources (tables b) (data_sources q) = Inr act"
    and "source_connect c w0 = Inr w"
  shows "\<exists>st. state (effects (spec_pipeline c w0) b) = Some st
            \<and> map mr_table (migration_results st) = map table_of act"
proof -
  let ?cls = "spec_pipeline c w0"
  from spec_init_sources [OF assms(2)]
  have st: "internals q = \<lparr>world = w0, migration_results = [], recorded_validations = []\<rparr>"
    by simp
  obtain outs w' where m: "migrate_tables c act w = (outs, w')"
    by (cases "migrate_tables c act w")
  let ?st = "(internals q)\<lparr>world := w', migration_results := map fst outs,
                recorded_validations := map snd outs\<rparr>"
  from st assms(4) m
  have run: "run_migration ?cls (q\<lparr>data_sources := act\<rparr>) = (Inr (list_all table_ok outs), ?st)"
    by (simp add: spec_pipeline_def spec_run_migration_def)
  from migrate_run(1) [OF assms(1-3) run] have "state (effects ?cls b) = Some ?st" .
  moreover from migrate_tables_tables [OF m]
  have "map mr_table (migration_results ?st) = map table_of act" by (simp add: comp_def)
  ultimately show ?thesis by blast
qed

lemma connect_refused:
  assumes "validate_only b" and "init cls (config b) = Inr q"
    and "filter_sources (tables b) (data_sources q) = Inr act"
    and "connect_to_source_db cls (q\<lparr>data_sources := act\<rparr>) = (Inr False, s)"
  shows "exit_code cls b = 1 \<and> validation_results (effects cls b) = []
       \<and> calls (effects cls b) = [CallInit (config b), CallConnect]"
  using assms
  unfolding exit_code_def effects_def main_def main_try_def validate_branch_def Let_def
  by simp

lemmas demo_defs = demo_def demo_args_def demo_sources_def

lemmas script_defs = exit_code_def effects_def main_def main_try_def validate_branch_def
  migrate_branch_def filter_sources_def subscript_def get_def passed_def join_def

lemmas spec_defs = spec_pipeline_def spec_init_def spec_connect_to_source_db_def
  spec_validate_migration_def spec_run_migration_def migrate_table_def table_steps_def
  table_ok_def demo_components_def table_of_def has_table_def

section \<open>Exit status\<close>





section \<open>The filter step\<close>

text \<open>
  Claim C3. When table names are given and every configured data source names its table,
  the filter step succeeds and makes the active list the sublist of the configured list
  whose tables are among the given names: exactly those entries, in the configured order.
  No assumption relates the given names to the configuration, so a name that the
  configuration lacks raises nothing.
\<close>

theorem filter_is_ordered_intersection:
  assumes "init cls (config a) = Inr p"
    and "tables a = Some names" and "names \<noteq> []"
    and "list_all has_table (data_sources p)"
  shows "filter_sources (tables a) (data_sources p) = Inr (filter (selected names) (data_sources p))
         \<and> active (effects cls a) = Some (filter (selected names) (data_sources p))
         \<and> subseq (filter (selected names) (data_sources p)) (data_sources p)
         \<and> set (filter (selected names) (data_sources p)) = {s \<in> set (data_sources p). selected names s}"
proof -
  from assms(2-4)
  have "filter_sources (tables a) (data_sources p) = Inr (filter (selected names) (data_sources p))"
    by (simp add: filter_sources_def select_sources_filter)
  with assms(1) show ?thesis by (simp add: active_effects)
qed

theorem filter_is_ordered_intersection_witness:
  "init (demo True) (config (demo_args False (Some [''audit'', ''ghost'', ''users''])))
     = Inr \<lparr>data_sources = demo_sources, internals = 0\<rparr>
   \<and> list_all has_table demo_sources
   \<and> active (effects (demo True) (demo_args False (Some [''audit'', ''ghost'', ''users''])))
       = Some [[''table'' \<mapsto> PyStr ''users''], [''table'' \<mapsto> PyStr ''audit'']]"
proof -
  let ?a = "demo_args False (Some [''audit'', ''ghost'', ''users''])"
  have i: "init (demo True) (config ?a) = Inr \<lparr>data_sources = demo_sources, internals = 0\<rparr>"
    by (simp add: demo_def demo_args_def)
  have t: "tables ?a = Some [''audit'', ''ghost'', ''users'']" by (simp add: demo_args_def)
  have n: "[''audit'', ''ghost'', ''users''] \<noteq> []" by simp
  have h: "list_all has_table (data_sources \<lparr>data_sources = demo_sources, internals = (0::nat)\<rparr>)"
    by (simp add: demo_sources_def has_table_def)
  from filter_is_ordered_intersection [OF i t n h] i h show ?thesis
    by (simp add: demo_sources_def selected_def)
qed

text \<open>
  Claim C7. With no table names given the filter step is skipped and the active list is the
  list that the constructor loaded.
\<close>

theorem filter_without_names_is_identity:
  assumes "init cls (config a) = Inr p"
    and "tables a = None \<or> tables a = Some []"
  shows "filter_sources (tables a) (data_sources p) = Inr (data_sources p)
         \<and> active (effects cls a) = Some (data_sources p)"
proof -
  from assms(2) have "filter_sources (tables a) (data_sources p) = Inr (data_sources p)"
    by (auto simp: filter_sources_def)
  with assms(1) show ?thesis by (simp add: active_effects)
qed

theorem filter_without_names_is_identity_witness:
  "init (demo True) (config (demo_args False None)) = Inr \<lparr>data_sources = demo_sources, internals = 0\<rparr>
   \<and> tables (demo_args False None) = None
   \<and> active (effects (demo True) (demo_args False None)) = Some demo_sources"
proof -
  have i: "init (demo True) (config (demo_args False None)) = Inr \<lparr>data_sources = demo_sources, internals = 0\<rparr>"
    by (simp add: demo_def demo_args_def)
  have t: "tables (demo_args False None) = None \<or> tables (demo_args False None) = Some []"
    by (simp add: demo_args_def)
  from filter_without_names_is_identity [OF i t] i t show ?thesis by (simp add: demo_args_def)
qed

text \<open>
  Claim C8, as amended. When the given names match no configured table the active list
  becomes empty; in validation-only mode, if the source connection is then established, the
  run validates nothing and exits with status 0.
\<close>

theorem empty_selection_validates_nothing:
  assumes "init cls (config a) = Inr p"
    and "tables a = Some names" and "names \<noteq> []"
    and "list_all has_table (data_sources p)"
    and "filter (selected names) (data_sources p) = []"
  shows "active (effects cls a) = Some []
       \<and> (validate_only a \<and> connect_to_source_db cls (p\<lparr>data_sources := []\<rparr>) = (Inr True, s1)
          \<longrightarrow> exit_code cls a = 0
              \<and> validation_results (effects cls a) = []
              \<and> calls (effects cls a) = [CallInit (config a), CallConnect])"
proof -
  from assms(2-5) have f: "filter_sources (tables a) (data_sources p) = Inr []"
    by (simp add: filter_sources_def select_sources_filter)
  have l: "validate_loop cls (p\<lparr>data_sources := []\<rparr>) [] s1 = (None, s1, [], [])" by simp
  from f assms(1) have "active (effects cls a) = Some []" by (simp add: active_effects)
  moreover have "exit_code cls a = 0 \<and> validation_results (effects cls a) = []
       \<and> calls (effects cls a) = [CallInit (config a), CallConnect]"
    if "validate_only a" "connect_to_source_db cls (p\<lparr>data_sources := []\<rparr>) = (Inr True, s1)"
    using validate_run [OF that(1) assms(1) f that(2) l] by simp
  ultimately show ?thesis by blast
qed

theorem empty_selection_validates_nothing_witness:
  "init (demo True) (config (demo_args True (Some [''ghost''])))
     = Inr \<lparr>data_sources = demo_sources, internals = 0\<rparr>
   \<and> filter (selected [''ghost'']) demo_sources = []
   \<and> validate_only (demo_args True (Some [''ghost'']))
   \<and> active (effects (demo True) (demo_args True (Some [''ghost'']))) = Some []
   \<and> exit_code (demo True) (demo_args True (Some [''ghost''])) = 0
   \<and> calls (effects (demo True) (demo_args True (Some [''ghost''])))
       = [CallInit ''config.ini'', CallConnect]"
proof -
  let ?a = "demo_args True (Some [''ghost''])"
  let ?p = "\<lparr>data_sources = demo_sources, internals = (0::nat)\<rparr>"
  have i: "init (demo True) (config ?a) = Inr ?p" by (simp add: demo_def demo_args_def)
  have t: "tables ?a = Some [''ghost'']" by (simp add: demo_args_def)
  have n: "[''ghost''] \<noteq> []" by simp
  have h: "list_all has_table (data_sources ?p)" by (simp add: demo_sources_def has_table_def)
  have e: "filter (selected [''ghost'']) (data_sources ?p) = []"
    by (simp add: demo_sources_def selected_def)
  have c: "validate_only ?a \<and> connect_to_source_db (demo True) (?p\<lparr>data_sources := []\<rparr>) = (Inr True, 1)"
    by (simp add: demo_def demo_args_def)
  from empty_selection_validates_nothing [OF i t n h e, of 1] i e c show ?thesis
    by (simp add: demo_args_def)
qed

text \<open>
  Claim C8 as stated does not hold: with an empty selection and a source connection that
  cannot be established, the validation-only run exits with status 1.
\<close>

theorem empty_selection_exit_counterexample:
  "filter (selected [''ghost'']) demo_sources = []
   \<and> validate_only (demo_args True (Some [''ghost'']))
   \<and> active (effects (demo False) (demo_args True (Some [''ghost'']))) = Some []
   \<and> exit_code (demo False) (demo_args True (Some [''ghost''])) = 1"
  by (simp add: script_defs demo_defs selected_def)

section \<open>Validation-only mode\<close>






section \<open>One result per table\<close>

text \<open>
  Claim C4, as amended. In validation-only mode, when the source connection is established
  and every call of \<^verbatim>\<open>validate_migration\<close> returns, the run gathers exactly one validation
  result per active table, in order: the value returned for that table. In full-migration
  mode, with the pipeline class of the specification and an established source connection,
  the run records exactly one migration result per active table, in order.
\<close>

theorem one_result_per_active_table:
  "(validate_only a
      \<and> init cls (config a) = Inr p
      \<and> filter_sources (tables a) (data_sources p) = Inr act
      \<and> list_all has_table act
      \<and> connect_to_source_db cls (p\<lparr>data_sources := act\<rparr>) = (Inr True, s1)
      \<and> list_all returned (validate_each cls (p\<lparr>data_sources := act\<rparr>) act s1)
    \<longrightarrow> map Inr (validation_results (effects cls a))
          = validate_each cls (p\<lparr>data_sources := act\<rparr>) act s1
        \<and> length (validation_results (effects cls a)) = length act)
   \<and> (\<not> validate_only b
      \<and> init (spec_pipeline c w0) (config b) = Inr q
      \<and> filter_sources (tables b) (data_sources q) = Inr act'
      \<and> source_connect c w0 = Inr w
    \<longrightarrow> (\<exists>st. state (effects (spec_pipeline c w0) b) = Some st
            \<and> map mr_table (migration_results st) = map table_of act'
            \<and> length (migration_results st) = length act'))"
proof -
  have "map Inr (validation_results (effects cls a))
          = validate_each cls (p\<lparr>data_sources := act\<rparr>) act s1
        \<and> length (validation_results (effects cls a)) = length act"
    if h: "validate_only a" "init cls (config a) = Inr p"
       "filter_sources (tables a) (data_sources p) = Inr act"
       "list_all has_table act"
       "connect_to_source_db cls (p\<lparr>data_sources := act\<rparr>) = (Inr True, s1)"
       "list_all returned (validate_each cls (p\<lparr>data_sources := act\<rparr>) act s1)"
  proof -
    from validate_loop_returned [OF h(4) h(6)] obtain s' rs where
      l: "validate_loop cls (p\<lparr>data_sources := act\<rparr>) act s1 = (None, s', rs, map table_of act)"
      and m: "map Inr rs = validate_each cls (p\<lparr>data_sources := act\<rparr>) act s1"
      by blast
    from validate_run(2) [OF h(1) h(2) h(3) h(5) l]
    have r: "validation_results (effects cls a) = rs" .
    from l have "length rs = length act" by (auto dest: validate_loop_shape)
    with r m show ?thesis by simp
  qed
  moreover have "\<exists>st. state (effects (spec_pipeline c w0) b) = Some st
            \<and> map mr_table (migration_results st) = map table_of act'
            \<and> length (migration_results st) = length act'"
    if h: "\<not> validate_only b" "init (spec_pipeline c w0) (config b) = Inr q"
       "filter_sources (tables b) (data_sources q) = Inr act'" "source_connect c w0 = Inr w"
  proof -
    from spec_run_results [OF h] obtain st where
      st: "state (effects (spec_pipeline c w0) b) = Some st"
          "map mr_table (migration_results st) = map table_of act'" by blast
    from st(2) have "length (migration_results st) = length act'"
      by (rule map_eq_imp_length_eq)
    with st show ?thesis by blast
  qed
  ultimately show ?thesis by blast
qed

theorem one_result_per_active_table_witness:
  "validate_only (demo_args True (Some [''users'', ''orders'']))
   \<and> length (validation_results (effects (demo True) (demo_args True (Some [''users'', ''orders''])))) = 2
   \<and> \<not> validate_only (demo_args False None)
   \<and> source_connect (demo_components True) [] = Inr []
   \<and> (\<exists>st. state (effects (spec_pipeline (demo_components True) []) (demo_args False None)) = Some st
         \<and> map mr_table (migration_results st) = [PyStr ''users'', PyStr ''orders'', PyStr ''audit''])"
proof -
  let ?a = "demo_args True (Some [''users'', ''orders''])"
  let ?act = "[[''table'' \<mapsto> PyStr ''users''], [''table'' \<mapsto> PyStr ''orders'']]"
  let ?p = "\<lparr>data_sources = demo_sources, internals = (0::nat)\<rparr>"
  let ?b = "demo_args False None"
  let ?c = "demo_components True"
  let ?q = "\<lparr>data_sources = demo_sources,
            internals = \<lparr>world = ([]::pyval list), migration_results = [], recorded_validations = []\<rparr>\<rparr>"
  have 1: "validate_only ?a
         \<and> init (demo True) (config ?a) = Inr ?p
         \<and> filter_sources (tables ?a) (data_sources ?p) = Inr ?act
         \<and> list_all has_table ?act
         \<and> connect_to_source_db (demo True) (?p\<lparr>data_sources := ?act\<rparr>) = (Inr True, 1)
         \<and> list_all returned (validate_each (demo True) (?p\<lparr>data_sources := ?act\<rparr>) ?act 1)"
    by (simp add: demo_defs filter_sources_def subscript_def has_table_def returned_def
        table_of_def get_def)
  have 2: "\<not> validate_only ?b
         \<and> init (spec_pipeline ?c []) (config ?b) = Inr ?q
         \<and> filter_sources (tables ?b) (data_sources ?q) = Inr demo_sources
         \<and> source_connect ?c [] = Inr []"
    by (simp add: spec_defs demo_args_def demo_sources_def filter_sources_def)
  from one_result_per_active_table
    [of ?a "demo True" ?p ?act 1 ?b ?c "[]" ?q demo_sources "[]"] 1 2
  have "length (validation_results (effects (demo True) ?a)) = length ?act
      \<and> (\<exists>st. state (effects (spec_pipeline ?c []) ?b) = Some st
            \<and> map mr_table (migration_results st) = map table_of demo_sources)"
    by blast
  with 1 2 show ?thesis
    by (simp add: demo_sources_def table_of_def get_def)
qed

text \<open>
  Claim C4 as stated does not hold: when the source connection cannot be established, the
  validation-only run returns with no validation result for its active table.
\<close>

theorem no_result_without_connection_counterexample:
  "validate_only (demo_args True (Some [''users'']))
   \<and> active (effects (demo False) (demo_args True (Some [''users'']))) = Some [[''table'' \<mapsto> PyStr ''users'']]
   \<and> validation_results (effects (demo False) (demo_args True (Some [''users'']))) = []"
  by (simp add: script_defs demo_defs)

section \<open>Failure of one table, failure of the connection\<close>

text \<open>
  Claim C5. With the pipeline class of the specification: when the extraction, the
  transformation or the load of one table raises, the error becomes one failed migration
  result for that table, at the table's place among the results; the tables before it keep
  their results, the tables after it are processed from the world that the failed table
  left, and \<^verbatim>\<open>run_migration\<close> returns false instead of raising.
\<close>

theorem failed_table_is_isolated:
  assumes "migrate_tables c pre w = (outs1, w1)"
    and "table_steps c t w1 = (Inl e, w2)"
    and "migrate_tables c post w2 = (outs3, w3)"
  shows "migrate_table c t w1
           = ((\<lparr>mr_table = table_of t, mr_status = Failed, rows_migrated = 0,
                 error_detail = Some e\<rparr>, validator_validate c (table_of t) w2), w2)
       \<and> migrate_tables c (pre @ t # post) w
           = (outs1 @ (\<lparr>mr_table = table_of t, mr_status = Failed, rows_migrated = 0,
                 error_detail = Some e\<rparr>, validator_validate c (table_of t) w2) # outs3, w3)
       \<and> length outs1 = length pre \<and> length outs3 = length post
       \<and> (source_connect c (world (internals p)) = Inr w \<and> data_sources p = pre @ t # post
          \<longrightarrow> (\<exists>st. run_migration (spec_pipeline c w0) p = (Inr False, st)
                 \<and> migration_results st = migration_results (internals p)
                      @ map fst outs1
                      @ \<lparr>mr_table = table_of t, mr_status = Failed, rows_migrated = 0,
                          error_detail = Some e\<rparr> # map fst outs3))"
proof -
  let ?out = "(\<lparr>mr_table = table_of t, mr_status = Failed, rows_migrated = 0,
                 error_detail = Some e\<rparr>, validator_validate c (table_of t) w2)"
  from assms(2) have t: "migrate_table c t w1 = (?out, w2)"
    by (simp add: migrate_table_def)
  with assms have all: "migrate_tables c (pre @ t # post) w = (outs1 @ ?out # outs3, w3)"
    by (simp add: migrate_tables_append)
  from assms(1) have l1: "length outs1 = length pre"
    by (auto dest!: migrate_tables_tables dest: map_eq_imp_length_eq)
  from assms(3) have l3: "length outs3 = length post"
    by (auto dest!: migrate_tables_tables dest: map_eq_imp_length_eq)
  have "\<exists>st. run_migration (spec_pipeline c w0) p = (Inr False, st)
                 \<and> migration_results st = migration_results (internals p)
                      @ map fst outs1 @ fst ?out # map fst outs3"
    if "source_connect c (world (internals p)) = Inr w" "data_sources p = pre @ t # post"
    using that all by (simp add: spec_pipeline_def spec_run_migration_def table_ok_def)
  with t all l1 l3 show ?thesis by simp
qed

theorem failed_table_is_isolated_witness:
  "table_steps (demo_components True) [''table'' \<mapsto> PyStr ''orders''] [PyStr ''users'']
     = (Inl (PipelineError ''ExtractionError''), [PyStr ''users''])
   \<and> map (\<lambda>out. mr_status (fst out)) (fst (migrate_tables (demo_components True) demo_sources []))
       = [Succeeded, Failed, Succeeded]
   \<and> snd (migrate_tables (demo_components True) demo_sources []) = [PyStr ''users'', PyStr ''audit'']
   \<and> source_connect (demo_components True) [] = Inr []
   \<and> (\<exists>st. run_migration (spec_pipeline (demo_components True) [])
               \<lparr>data_sources = demo_sources,
                internals = \<lparr>world = [], migration_results = [], recorded_validations = []\<rparr>\<rparr>
             = (Inr False, st)
          \<and> map mr_status (migration_results st) = [Succeeded, Failed, Succeeded])"
proof -
  let ?c = "demo_components True"
  let ?users = "[''table'' \<mapsto> PyStr ''users'']"
  let ?orders = "[''table'' \<mapsto> PyStr ''orders'']"
  let ?audit = "[''table'' \<mapsto> PyStr ''audit'']"
  let ?ok = "\<lambda>t. \<lparr>mr_table = PyStr t, mr_status = Succeeded, rows_migrated = 2, error_detail = None\<rparr>"
  let ?vr = "\<lambda>t. [''table_name'' \<mapsto> PyStr t, ''validation_passed'' \<mapsto> PyBool True]"
  let ?p = "\<lparr>data_sources = demo_sources,
             internals = \<lparr>world = ([]::pyval list), migration_results = [],
                          recorded_validations = []\<rparr>\<rparr>"
  have a: "migrate_tables ?c [?users] [] = ([(?ok ''users'', ?vr ''users'')], [PyStr ''users''])"
    by (simp add: spec_defs get_def)
  have b: "table_steps ?c ?orders [PyStr ''users'']
             = (Inl (PipelineError ''ExtractionError''), [PyStr ''users''])"
    by (simp add: spec_defs get_def)
  have d: "migrate_tables ?c [?audit] [PyStr ''users'']
             = ([(?ok ''audit'', ?vr ''audit'')], [PyStr ''users'', PyStr ''audit''])"
    by (simp add: spec_defs get_def)
  have g: "source_connect ?c (world (internals ?p)) = Inr []
         \<and> data_sources ?p = [?users] @ ?orders # [?audit]"
    by (simp add: demo_components_def demo_sources_def)
  from failed_table_is_isolated [OF a b d, of ?p "[]"] g
  have r: "\<exists>st. run_migration (spec_pipeline ?c []) ?p = (Inr False, st)
          \<and> map mr_status (migration_results st) = [Succeeded, Failed, Succeeded]"
    by auto
  from failed_table_is_isolated [OF a b d, of ?p "[]"] b g r show ?thesis
    by (simp add: demo_sources_def)
qed

text \<open>
  Claim C6. With the pipeline class of the specification: when the source connector fails,
  \<^verbatim>\<open>connect_to_source_db\<close> returns false and does not raise, the run makes no migration
  result and no validation result, the world is untouched, and the exit status is 1 in
  both modes. For any pipeline class, a validation-only run whose connection attempt
  returns false exits with status 1 after the constructor and the connection attempt alone.
\<close>

theorem failed_connection_aborts:
  assumes "init (spec_pipeline c w0) (config a) = Inr p"
    and "source_connect c w0 = Inl e"
  shows "connect_to_source_db (spec_pipeline c w0) p = (Inr False, internals p)
       \<and> exit_code (spec_pipeline c w0) a = 1
       \<and> validation_results (effects (spec_pipeline c w0) a) = []
       \<and> (\<exists>st. state (effects (spec_pipeline c w0) a) = Some st \<and> migration_results st = []
                \<and> recorded_validations st = [] \<and> world st = w0)
       \<and> set (calls (effects (spec_pipeline c w0) a))
           \<subseteq> {CallInit (config a), CallConnect, CallRunMigration}
       \<and> (validate_only b \<and> init cls (config b) = Inr q
            \<and> filter_sources (tables b) (data_sources q) = Inr act
            \<and> connect_to_source_db cls (q\<lparr>data_sources := act\<rparr>) = (Inr False, s)
          \<longrightarrow> exit_code cls b = 1 \<and> validation_results (effects cls b) = []
              \<and> calls (effects cls b) = [CallInit (config b), CallConnect])"
proof -
  let ?cls = "spec_pipeline c w0"
  from spec_init_sources [OF assms(1)]
  have srcs: "list_all has_table (data_sources p)"
    and st: "internals p = \<lparr>world = w0, migration_results = [], recorded_validations = []\<rparr>"
    by simp_all
  from filter_sources_total [OF srcs] obtain act0 where
    act: "filter_sources (tables a) (data_sources p) = Inr act0" by blast
  from st assms(2) have con: "connect_to_source_db ?cls p = (Inr False, internals p)"
    by (simp add: spec_pipeline_def spec_connect_to_source_db_def)
  from st assms(2) have con': "connect_to_source_db ?cls (p\<lparr>data_sources := act0\<rparr>) = (Inr False, internals p)"
    by (simp add: spec_pipeline_def spec_connect_to_source_db_def)
  from st assms(2) have run: "run_migration ?cls (p\<lparr>data_sources := act0\<rparr>) = (Inr False, internals p)"
    by (simp add: spec_pipeline_def spec_run_migration_def)
  have "exit_code ?cls a = 1
       \<and> validation_results (effects ?cls a) = []
       \<and> state (effects ?cls a) = Some (internals p)
       \<and> set (calls (effects ?cls a)) \<subseteq> {CallInit (config a), CallConnect, CallRunMigration}"
    using assms(1) act con' run
    unfolding exit_code_def effects_def main_def main_try_def validate_branch_def
      migrate_branch_def Let_def
    by (cases "validate_only a") simp_all
  with con st connect_refused [of b cls q act s] show ?thesis by simp
qed

theorem failed_connection_aborts_witness:
  "init (spec_pipeline (demo_components False) []) (config (demo_args True None))
     = Inr \<lparr>data_sources = demo_sources,
            internals = \<lparr>world = [], migration_results = [], recorded_validations = []\<rparr>\<rparr>
   \<and> source_connect (demo_components False) [] = Inl (PipelineError ''ConnectionError'')
   \<and> exit_code (spec_pipeline (demo_components False) []) (demo_args True None) = 1
   \<and> exit_code (spec_pipeline (demo_components False) []) (demo_args False None) = 1
   \<and> validation_results (effects (spec_pipeline (demo_components False) []) (demo_args True None)) = []
   \<and> connect_to_source_db (demo False) \<lparr>data_sources = demo_sources, internals = 0\<rparr> = (Inr False, 1)
   \<and> exit_code (demo False) (demo_args True None) = 1"
proof -
  let ?c = "demo_components False"
  let ?p = "\<lparr>data_sources = demo_sources,
            internals = \<lparr>world = ([]::pyval list), migration_results = [], recorded_validations = []\<rparr>\<rparr>"
  let ?q = "\<lparr>data_sources = demo_sources, internals = (0::nat)\<rparr>"
  let ?b = "demo_args True None"
  have i: "init (spec_pipeline ?c []) (config ?b) = Inr ?p"
    by (simp add: spec_defs demo_args_def demo_sources_def)
  have i': "init (spec_pipeline ?c []) (config (demo_args False None)) = Inr ?p"
    by (simp add: spec_defs demo_args_def demo_sources_def)
  have e: "source_connect ?c [] = Inl (PipelineError ''ConnectionError'')"
    by (simp add: demo_components_def)
  have g: "validate_only ?b \<and> init (demo False) (config ?b) = Inr ?q
         \<and> filter_sources (tables ?b) (data_sources ?q) = Inr demo_sources
         \<and> connect_to_source_db (demo False) (?q\<lparr>data_sources := demo_sources\<rparr>) = (Inr False, 1)"
    by (simp add: demo_def demo_args_def filter_sources_def)
  from failed_connection_aborts [OF i e, of ?b "demo False" ?q demo_sources 1] g
  have 1: "exit_code (spec_pipeline ?c []) ?b = 1
         \<and> validation_results (effects (spec_pipeline ?c []) ?b) = []
         \<and> exit_code (demo False) ?b = 1" by blast
  from failed_connection_aborts [OF i' e, of ?b "demo False" ?q demo_sources 1]
  have 2: "exit_code (spec_pipeline ?c []) (demo_args False None) = 1" by blast
  from 1 2 i e g show ?thesis by simp
qed

end
